theory Spec2Isabelle
  imports Main
begin

section \<open>JavaScript values\<close>

text \<open>
  The frontend is untyped JavaScript: the controller state, the backend responses and the
  component props are arbitrary values, and every guard of the code (\<open>!sessionId\<close>,
  \<open>if (result.error)\<close>, \<open>a || b\<close>) tests truthiness, not the absence of \<open>null\<close>.
  Values are therefore modelled as JSON-like data with both \<open>undefined\<close> and \<open>null\<close>.
  Numbers are restricted to integers (no \<open>NaN\<close>, no fractions), and they are only
  compared, never printed or computed with. A string is the list of its code units, of
  which a \<open>char\<close> covers those below 256. Objects are association lists read with
  \<open>map_of\<close>.
\<close>

datatype jsval =
    JUndefined
  | JNull
  | JBool bool
  | JNum int
  | JStr string
  | JArr "jsval list"
  | JObj "(string \<times> jsval) list"

text \<open>ToBoolean: \<open>undefined\<close>, \<open>null\<close>, \<open>false\<close>, \<open>0\<close> and \<open>""\<close> are falsy.\<close>

fun truthy :: "jsval \<Rightarrow> bool" where
  "truthy JUndefined = False"
| "truthy JNull = False"
| "truthy (JBool b) = b"
| "truthy (JNum n) = (n \<noteq> 0)"
| "truthy (JStr s) = (s \<noteq> [])"
| "truthy (JArr xs) = True"
| "truthy (JObj kvs) = True"

text \<open>\<open>a || b\<close>\<close>

definition js_or :: "jsval \<Rightarrow> jsval \<Rightarrow> jsval" where
  "js_or a b = (if truthy a then a else b)"

text \<open>
  A thrown \<open>Error\<close> with its \<open>message\<close>. Reading a property of \<open>null\<close> or
  \<open>undefined\<close> throws a \<open>TypeError\<close>; its message is the engine's (V8's wording is
  used here), and nothing below depends on the text.
\<close>

datatype exn = Exn string

fun message :: "exn \<Rightarrow> string" where
  "message (Exn m) = m"

definition cannot_read :: "jsval \<Rightarrow> string \<Rightarrow> exn" where
  "cannot_read v p =
     Exn (''Cannot read properties of '' @ (if v = JNull then ''null'' else ''undefined'')
          @ '' (reading '' @ [CHR 0x27] @ p @ [CHR 0x27] @ '')'')"

text \<open>Calling \<open>v.map(...)\<close> on a value that is not an array: V8's wording again.\<close>

definition not_a_function :: "string \<Rightarrow> exn" where
  "not_a_function f = Exn (f @ '' is not a function'')"

text \<open>
  \<open>v.p\<close> for a data property \<open>p\<close> of a JSON value (the names read by the code:
  \<open>error\<close>, \<open>session_id\<close>, \<open>numeric_columns\<close>, \<open>datetime_columns\<close>, \<open>response\<close>, ...;
  none of them is defined on the prototypes of strings, numbers, booleans or arrays).
\<close>

fun js_get :: "jsval \<Rightarrow> string \<Rightarrow> exn + jsval" where
  "js_get JUndefined p = Inl (cannot_read JUndefined p)"
| "js_get JNull p = Inl (cannot_read JNull p)"
| "js_get (JObj kvs) p = Inr (case map_of kvs p of None \<Rightarrow> JUndefined | Some v \<Rightarrow> v)"
| "js_get v p = Inr JUndefined"

text \<open>\<open>v[0]\<close>\<close>

fun js_index0 :: "jsval \<Rightarrow> exn + jsval" where
  "js_index0 JUndefined = Inl (cannot_read JUndefined ''0'')"
| "js_index0 JNull = Inl (cannot_read JNull ''0'')"
| "js_index0 (JArr []) = Inr JUndefined"
| "js_index0 (JArr (x # xs)) = Inr x"
| "js_index0 (JStr []) = Inr JUndefined"
| "js_index0 (JStr (c # cs)) = Inr (JStr [c])"
| "js_index0 (JObj kvs) = Inr (case map_of kvs ''0'' of None \<Rightarrow> JUndefined | Some v \<Rightarrow> v)"
| "js_index0 v = Inr JUndefined"

text \<open>\<open>v.length\<close>\<close>

fun js_length :: "jsval \<Rightarrow> exn + jsval" where
  "js_length JUndefined = Inl (cannot_read JUndefined ''length'')"
| "js_length JNull = Inl (cannot_read JNull ''length'')"
| "js_length (JArr xs) = Inr (JNum (int (length xs)))"
| "js_length (JStr s) = Inr (JNum (int (length s)))"
| "js_length (JObj kvs) = Inr (case map_of kvs ''length'' of None \<Rightarrow> JUndefined | Some v \<Rightarrow> v)"
| "js_length v = Inr JUndefined"


section \<open>The session workflow controller (App.js)\<close>

text \<open>
  \<open>App\<close> holds three pieces of state, each initialised with \<open>useState(null)\<close>.
\<close>

record app_state =
  sessionId :: jsval
  dataInfo :: jsval
  currentAnalysis :: jsval

definition App_init :: app_state where
  "App_init = \<lparr>sessionId = JNull, dataInfo = JNull, currentAnalysis = JNull\<rparr>"

text \<open>
  \<open>handleDataLoaded\<close> reads \<open>sessionData.session_id\<close>, which throws when the argument
  is \<open>null\<close> or \<open>undefined\<close>; no state is assigned then.
\<close>

definition handleDataLoaded :: "jsval \<Rightarrow> app_state \<Rightarrow> exn + app_state" where
  "handleDataLoaded sessionData s =
     (case js_get sessionData ''session_id'' of
        Inl e \<Rightarrow> Inl e
      | Inr sid \<Rightarrow> Inr (s\<lparr>sessionId := sid, dataInfo := sessionData, currentAnalysis := JNull\<rparr>))"

definition handleAnalysisSelect :: "jsval \<Rightarrow> app_state \<Rightarrow> app_state" where
  "handleAnalysisSelect analysisType s = s\<lparr>currentAnalysis := analysisType\<rparr>"

definition handleBackToMenu :: "app_state \<Rightarrow> app_state" where
  "handleBackToMenu s = s\<lparr>currentAnalysis := JNull\<rparr>"

text \<open>The \<open>onDataReload\<close> callback handed to the menu.\<close>

definition onDataReload :: "app_state \<Rightarrow> app_state" where
  "onDataReload s = s\<lparr>sessionId := JNull, dataInfo := JNull, currentAnalysis := JNull\<rparr>"

text \<open>
  The analysis views with the props \<open>App\<close> passes them (\<open>onBack\<close> is always
  \<open>handleBackToMenu\<close> and is left out): session id first, then the column lists in the
  order of the JSX attributes.
\<close>

datatype component =
    BasicStats jsval
  | DistributionAnalysis jsval jsval
  | MissingValuesAnalysis jsval
  | TimeSeriesAnalysis jsval jsval jsval
  | CorrelationAnalysis jsval
  | FullReport jsval
  | ChatBot jsval

text \<open>
  \<open>renderAnalysisComponent\<close>: \<open>None\<close> is the \<open>null\<close> it returns. The \<open>switch\<close>
  compares with \<open>===\<close>, so only the seven string tags select a view.
\<close>

definition renderAnalysisComponent :: "app_state \<Rightarrow> exn + component option" where
  "renderAnalysisComponent s =
     (if \<not> truthy (sessionId s) \<or> \<not> truthy (dataInfo s) then Inr None
      else if currentAnalysis s = JStr ''basic_stats'' then
        Inr (Some (BasicStats (sessionId s)))
      else if currentAnalysis s = JStr ''distribution'' then
        (case js_get (dataInfo s) ''numeric_columns'' of
           Inl e \<Rightarrow> Inl e
         | Inr nc \<Rightarrow> Inr (Some (DistributionAnalysis (sessionId s) nc)))
      else if currentAnalysis s = JStr ''missing_values'' then
        Inr (Some (MissingValuesAnalysis (sessionId s)))
      else if currentAnalysis s = JStr ''time_series'' then
        (case js_get (dataInfo s) ''datetime_columns'' of
           Inl e \<Rightarrow> Inl e
         | Inr dc \<Rightarrow>
             (case js_get (dataInfo s) ''numeric_columns'' of
                Inl e \<Rightarrow> Inl e
              | Inr nc \<Rightarrow> Inr (Some (TimeSeriesAnalysis (sessionId s) dc nc))))
      else if currentAnalysis s = JStr ''correlation'' then
        Inr (Some (CorrelationAnalysis (sessionId s)))
      else if currentAnalysis s = JStr ''full_report'' then
        Inr (Some (FullReport (sessionId s)))
      else if currentAnalysis s = JStr ''chatbot'' then
        Inr (Some (ChatBot (sessionId s)))
      else Inr None)"

text \<open>
  What \<open>App\<close> puts into its container:
  \<open>!sessionId ? <DataUpload/> : currentAnalysis ? renderAnalysisComponent() : <AnalysisMenu/>\<close>.
\<close>

datatype screen =
    DataUploadScreen
  | AnalysisScreen "component option"
  | AnalysisMenuScreen jsval

definition App_render :: "app_state \<Rightarrow> exn + screen" where
  "App_render s =
     (if \<not> truthy (sessionId s) then Inr DataUploadScreen
      else if truthy (currentAnalysis s) then
        (case renderAnalysisComponent s of
           Inl e \<Rightarrow> Inl e
         | Inr c \<Rightarrow> Inr (AnalysisScreen c))
      else Inr (AnalysisMenuScreen (dataInfo s)))"

text \<open>The ids of the menu's \<open>analysisOptions\<close>, in order.\<close>

definition analysisOptions :: "string list" where
  "analysisOptions =
     [''basic_stats'', ''distribution'', ''missing_values'', ''time_series'',
      ''correlation'', ''full_report'', ''chatbot'']"




section \<open>The backend as seen by the client (services/api.js)\<close>

text \<open>
  Every wrapper posts one request and returns \<open>response.data\<close>. A request is its
  endpoint and the fields of the body as they are handed to axios. The answer is
  supplied from outside: the promise resolves with the body the backend sent, or rejects
  with an error (network, timeout, non-2xx status).

  The upload request is a multipart form. \<open>FormData.append\<close> keeps a file as it is and
  stores any other value as the string it converts to; that string is not computed here,
  \<open>StringOf v\<close> stands for it.
\<close>

datatype js_file = File string

datatype form_value = Blob js_file | StringOf jsval

datatype request =
    Post string "(string \<times> jsval) list"
  | PostForm string "(string \<times> form_value) list"

datatype outcome = Resolved jsval | Rejected exn

text \<open>
  The options object of \<open>uploadFile\<close>, as its one caller builds it from the state of
  the upload view: a boolean and two numbers, each possibly absent (\<open>options = {}\<close>).
\<close>

record upload_options =
  has_header :: "bool option"
  skip_rows :: "int option"
  header_row :: "int option"

definition uploadFile :: "js_file \<Rightarrow> upload_options \<Rightarrow> request" where
  "uploadFile f options =
     PostForm ''/api/upload/file''
       [(''file'', Blob f),
        (''has_header'',
           StringOf (JBool (case has_header options of None \<Rightarrow> True | Some b \<Rightarrow> b))),
        (''skip_rows'',
           StringOf (JNum (case skip_rows options of
                             None \<Rightarrow> 0 | Some n \<Rightarrow> if n \<noteq> 0 then n else 0))),
        (''header_row'',
           StringOf (JNum (case header_row options of
                             None \<Rightarrow> 0 | Some n \<Rightarrow> if n \<noteq> 0 then n else 0)))]"

definition loadSampleData :: request where
  "loadSampleData = Post ''/api/upload/sample'' []"

definition getBasicStats :: "jsval \<Rightarrow> request" where
  "getBasicStats sid = Post ''/api/analysis/basic-stats'' [(''session_id'', sid)]"

definition getDistributionAnalysis :: "jsval \<Rightarrow> jsval \<Rightarrow> request" where
  "getDistributionAnalysis sid column =
     Post ''/api/analysis/distribution'' [(''session_id'', sid), (''column'', column)]"

definition getMissingValuesAnalysis :: "jsval \<Rightarrow> request" where
  "getMissingValuesAnalysis sid = Post ''/api/analysis/missing-values'' [(''session_id'', sid)]"

definition handleMissingValues :: "jsval \<Rightarrow> jsval \<Rightarrow> request" where
  "handleMissingValues sid method =
     Post ''/api/analysis/handle-missing'' [(''session_id'', sid), (''method'', method)]"

definition getTimeSeriesData :: "jsval \<Rightarrow> jsval \<Rightarrow> jsval \<Rightarrow> request" where
  "getTimeSeriesData sid timeCol valueColumns =
     Post ''/api/analysis/time-series''
       [(''session_id'', sid), (''time_column'', timeCol), (''value_columns'', valueColumns)]"

definition getCorrelationAnalysis :: "jsval \<Rightarrow> request" where
  "getCorrelationAnalysis sid = Post ''/api/analysis/correlation'' [(''session_id'', sid)]"


definition getComprehensiveReport :: "jsval \<Rightarrow> request" where
  "getComprehensiveReport sid =
     Post ''/api/analysis/comprehensive-report'' [(''session_id'', sid)]"

text \<open>The string a \<open>catch\<close> block stores: \<open>prefix + err.message\<close>.\<close>

definition caught :: "string \<Rightarrow> exn \<Rightarrow> jsval" where
  "caught prefix err = JStr (prefix @ message err)"


section \<open>What React puts on the page\<close>

text \<open>
  A render can fail in two ways: an expression of the component throws, or React is
  handed a child it does not accept. Nothing in the application catches either (there is
  no error boundary), so the tree is unmounted and no effect of the failed render runs.
\<close>

datatype crash = Thrown exn | InvalidChild jsval

text \<open>
  A value placed in JSX as a child: a non-empty string or a number becomes a text node;
  \<open>null\<close>, \<open>undefined\<close>, booleans and the empty string become nothing; an array
  stands for its elements in order;
  a plain object makes React throw (objects are not valid as a React child).
  The result lists the values that become text nodes; their text is not computed.
\<close>

fun react_child :: "jsval \<Rightarrow> crash + jsval list"
  and react_children :: "jsval list \<Rightarrow> crash + jsval list" where
  "react_child JUndefined = Inr []"
| "react_child JNull = Inr []"
| "react_child (JBool b) = Inr []"
| "react_child (JNum n) = Inr [JNum n]"
| "react_child (JStr s) = Inr (if s = [] then [] else [JStr s])"
| "react_child (JArr xs) = react_children xs"
| "react_child (JObj kvs) = Inl (InvalidChild (JObj kvs))"
| "react_children [] = Inr []"
| "react_children (x # xs) =
     (case react_child x of
        Inl c \<Rightarrow> Inl c
      | Inr ts \<Rightarrow> (case react_children xs of Inl c \<Rightarrow> Inl c | Inr us \<Rightarrow> Inr (ts @ us)))"

text \<open>
  The block \<open>{error && <Alert severity="error">{error}</Alert>}\<close>, which every
  component renders. A truthy \<open>error\<close> is the child of the alert; a falsy one is
  itself the value of the expression and so a child of the page (which shows \<open>0\<close> as
  text and nothing for the other falsy values).
\<close>

datatype block = Texts "jsval list" | AlertBox "jsval list"

definition alert_block :: "jsval \<Rightarrow> crash + block" where
  "alert_block e =
     (case react_child e of
        Inl c \<Rightarrow> Inl c
      | Inr ts \<Rightarrow> Inr (if truthy e then AlertBox ts else Texts ts))"

text \<open>
  \<open>v.map(f)\<close> as the selectors call it on a column list: the elements, if \<open>v\<close> is an
  array; no other JSON value has a \<open>map\<close> that can be called.
\<close>

fun js_map :: "string \<Rightarrow> jsval \<Rightarrow> exn + jsval list" where
  "js_map name JUndefined = Inl (cannot_read JUndefined ''map'')"
| "js_map name JNull = Inl (cannot_read JNull ''map'')"
| "js_map name (JArr xs) = Inr xs"
| "js_map name v = Inl (not_a_function (name @ ''.map''))"

text \<open>
  \<open>v && v.p\<close>: its value (\<open>v\<close> if that is falsy, else \<open>v.p\<close>; reading a property
  of a truthy value does not throw), and whether it is truthy.
\<close>

definition js_and :: "jsval \<Rightarrow> string \<Rightarrow> jsval" where
  "js_and v p =
     (if truthy v then (case js_get v p of Inl e \<Rightarrow> JUndefined | Inr x \<Rightarrow> x) else v)"

definition has :: "jsval \<Rightarrow> string \<Rightarrow> bool" where
  "has v p = truthy (js_and v p)"

text \<open>
  A guard \<open>{v && (...)}\<close> whose \<open>v\<close> is falsy has \<open>v\<close> as its value, and React
  is handed that: \<open>0\<close> shows as text, the other falsy values show nothing.
\<close>

definition falsy_texts :: "jsval \<Rightarrow> jsval list" where
  "falsy_texts v = (if truthy v then [] else (case react_child v of Inl c \<Rightarrow> [] | Inr ts \<Rightarrow> ts))"

fun is_string :: "jsval \<Rightarrow> bool" where
  "is_string (JStr s) = True"
| "is_string v = False"

text \<open>
  What a render function puts on the page is modelled where the source decides it: the
  conditionals of the JSX, the expressions evaluated on the way, and the children handed
  to React. Two things are decided elsewhere and are not modelled: what a results block
  draws from \<open>data\<close> (tables and third-party plots), and what the selector components
  make of options that are not strings. There the result is \<open>None\<close>; \<open>Some\<close> is the
  outcome where the model has one.
\<close>

type_synonym 'a modelled = "(crash + 'a) option"

text \<open>
  The pages: the spinner returned alone while loading, the warning of the time-series
  view, the alert-only page of the statistics view, and the page with its in-page
  spinner (shown or not), its alert block, and the text values its results guard leaves
  on the page, the results block itself being absent.
\<close>

datatype view = Spinner | Warning | AlertPage "jsval list" | Page bool block "jsval list"

text \<open>Effects run after the first render, if it went through.\<close>

definition after_render :: "'v modelled \<Rightarrow> 'a \<Rightarrow> 'a modelled" where
  "after_render r x =
     (case r of
        None \<Rightarrow> None
      | Some (Inl c) \<Rightarrow> Some (Inl c)
      | Some (Inr v) \<Rightarrow> Some (Inr x))"


section \<open>The upload view (DataUpload)\<close>

text \<open>
  Every component keeps \<open>loading\<close> and \<open>error\<close>; the views below extend this record
  with their own fields. A handler is modelled from its call to its last assignment:
  it takes the outcome of each request it awaits and returns the values last assigned to
  the state, after the \<open>finally\<close> block, together with the requests it issued, in order.
\<close>

record ui_status =
  loading :: bool
  error :: jsval

record upload_state = ui_status +
  dataSource :: string
  selectedFile :: "js_file option"
  showOptions :: bool
  previewData :: jsval
  hasHeader :: bool
  skipRows :: int
  headerRow :: int

definition DataUpload_init :: upload_state where
  "DataUpload_init =
     \<lparr>loading = False, error = JNull, dataSource = ''sample'', selectedFile = None,
      showOptions = False, previewData = JNull, hasHeader = True, skipRows = 0,
      headerRow = 0\<rparr>"

text \<open>
  \<open>handleFileUpload\<close> and \<open>handleSampleData\<close> call \<open>onDataLoaded\<close>, which is
  \<open>handleDataLoaded\<close> of \<open>App\<close>, so they act on both states.
\<close>

definition handleFileUpload ::
  "outcome \<Rightarrow> upload_state \<Rightarrow> app_state \<Rightarrow> upload_state \<times> app_state \<times> request list" where
  "handleFileUpload out d s =
     (case selectedFile d of
        None \<Rightarrow> (d, s, [])
      | Some f \<Rightarrow>
         (let d1 = d\<lparr>loading := True, error := JNull\<rparr>;
              req = uploadFile f
                      \<lparr>has_header = Some (hasHeader d), skip_rows = Some (skipRows d),
                       header_row = Some (headerRow d)\<rparr>;
              failed = (\<lambda>err. (d1\<lparr>error := caught ''Error uploading file: '' err\<rparr>, s));
              (d2, s2) =
                (case out of
                   Rejected err \<Rightarrow> failed err
                 | Resolved result \<Rightarrow>
                     (case js_get result ''error'' of
                        Inl err \<Rightarrow> failed err
                      | Inr e \<Rightarrow>
                          if truthy e then (d1\<lparr>error := e\<rparr>, s)
                          else (case handleDataLoaded result s of
                                  Inl err \<Rightarrow> failed err
                                | Inr s' \<Rightarrow> (d1\<lparr>showOptions := False\<rparr>, s'))))
          in (d2\<lparr>loading := False\<rparr>, s2, [req])))"

definition handleSampleData ::
  "outcome \<Rightarrow> upload_state \<Rightarrow> app_state \<Rightarrow> upload_state \<times> app_state \<times> request list" where
  "handleSampleData out d s =
     (let d1 = d\<lparr>loading := True, error := JNull\<rparr>;
          failed = (\<lambda>err. (d1\<lparr>error := caught ''Error loading sample data: '' err\<rparr>, s));
          (d2, s2) =
            (case out of
               Rejected err \<Rightarrow> failed err
             | Resolved result \<Rightarrow>
                 (case js_get result ''error'' of
                    Inl err \<Rightarrow> failed err
                  | Inr e \<Rightarrow>
                      if truthy e then (d1\<lparr>error := e\<rparr>, s)
                      else (case handleDataLoaded result s of
                              Inl err \<Rightarrow> failed err
                            | Inr s' \<Rightarrow> (d1, s'))))
      in (d2\<lparr>loading := False\<rparr>, s2, [loadSampleData]))"

text \<open>The alert block of the upload page.\<close>

definition DataUpload_alert :: "upload_state \<Rightarrow> crash + block" where
  "DataUpload_alert d = alert_block (error d)"


section \<open>The analysis views\<close>

record view_state = ui_status +
  data :: jsval

subsection \<open>BasicStats\<close>

definition BasicStats_init :: view_state where
  "BasicStats_init = \<lparr>loading = True, error = JNull, data = JNull\<rparr>"

definition fetchStats :: "jsval \<Rightarrow> outcome \<Rightarrow> view_state \<Rightarrow> view_state \<times> request list" where
  "fetchStats sid out st =
     (let failed = (\<lambda>err. st\<lparr>error := caught ''Error fetching basic statistics: '' err\<rparr>);
          st1 =
            (case out of
               Rejected err \<Rightarrow> failed err
             | Resolved result \<Rightarrow>
                 (case js_get result ''error'' of
                    Inl err \<Rightarrow> failed err
                  | Inr e \<Rightarrow> if truthy e then st\<lparr>error := e\<rparr> else st\<lparr>data := result\<rparr>))
      in (st1\<lparr>loading := False\<rparr>, [getBasicStats sid]))"

text \<open>
  The render function returns the spinner while loading, then, \<open>if (error)\<close>, a page
  with the back button and the alert only, and otherwise the page whose results block is
  the expression \<open>{data && data.basic_stats && (...)}\<close>; that page has no alert block.
\<close>

definition BasicStats_render :: "view_state \<Rightarrow> view modelled" where
  "BasicStats_render st =
     (if loading st then Some (Inr Spinner)
      else if truthy (error st) then
        (case react_child (error st) of
           Inl c \<Rightarrow> Some (Inl c)
         | Inr ts \<Rightarrow> Some (Inr (AlertPage ts)))
      else if has (data st) ''basic_stats'' then None
      else Some (Inr (Page False (Texts []) (falsy_texts (js_and (data st) ''basic_stats'')))))"

text \<open>Mounting: the first render, then the effect, which calls \<open>fetchStats\<close>.\<close>

definition BasicStats_mount :: "jsval \<Rightarrow> outcome \<Rightarrow> (view_state \<times> request list) modelled" where
  "BasicStats_mount sid out =
     after_render (BasicStats_render BasicStats_init) (fetchStats sid out BasicStats_init)"

subsection \<open>CorrelationAnalysis\<close>

definition CorrelationAnalysis_init :: view_state where
  "CorrelationAnalysis_init = \<lparr>loading = True, error = JNull, data = JNull\<rparr>"

definition fetchCorrelationData ::
  "jsval \<Rightarrow> outcome \<Rightarrow> view_state \<Rightarrow> view_state \<times> request list" where
  "fetchCorrelationData sid out st =
     (let failed = (\<lambda>err. st\<lparr>error := caught ''Error fetching correlation data: '' err\<rparr>);
          st1 =
            (case out of
               Rejected err \<Rightarrow> failed err
             | Resolved result \<Rightarrow>
                 (case js_get result ''error'' of
                    Inl err \<Rightarrow> failed err
                  | Inr e \<Rightarrow> if truthy e then st\<lparr>error := e\<rparr> else st\<lparr>data := result\<rparr>))
      in (st1\<lparr>loading := False\<rparr>, [getCorrelationAnalysis sid]))"

text \<open>
  The spinner while loading; otherwise the page with the alert block and, under
  \<open>{data && ...}\<close>, the results block (heatmap and table).
\<close>

definition CorrelationAnalysis_render :: "view_state \<Rightarrow> view modelled" where
  "CorrelationAnalysis_render st =
     (if loading st then Some (Inr Spinner)
      else if truthy (data st) then None
      else (case alert_block (error st) of
              Inl c \<Rightarrow> Some (Inl c)
            | Inr b \<Rightarrow> Some (Inr (Page False b (falsy_texts (data st))))))"

definition CorrelationAnalysis_mount ::
  "jsval \<Rightarrow> outcome \<Rightarrow> (view_state \<times> request list) modelled" where
  "CorrelationAnalysis_mount sid out =
     after_render (CorrelationAnalysis_render CorrelationAnalysis_init)
       (fetchCorrelationData sid out CorrelationAnalysis_init)"

subsection \<open>MissingValuesAnalysis\<close>

record mv_state = view_state +
  handlingMethod :: jsval
  processing :: bool

definition MissingValuesAnalysis_init :: mv_state where
  "MissingValuesAnalysis_init =
     \<lparr>loading = True, error = JNull, data = JNull, handlingMethod = JStr [],
      processing = False\<rparr>"

definition fetchMissingValuesData ::
  "jsval \<Rightarrow> outcome \<Rightarrow> mv_state \<Rightarrow> mv_state \<times> request list" where
  "fetchMissingValuesData sid out st =
     (let failed = (\<lambda>err. st\<lparr>error := caught ''Error fetching missing values data: '' err\<rparr>);
          st1 =
            (case out of
               Rejected err \<Rightarrow> failed err
             | Resolved result \<Rightarrow>
                 (case js_get result ''error'' of
                    Inl err \<Rightarrow> failed err
                  | Inr e \<Rightarrow> if truthy e then st\<lparr>error := e\<rparr> else st\<lparr>data := result\<rparr>))
      in (st1\<lparr>loading := False\<rparr>, [getMissingValuesAnalysis sid]))"

text \<open>
  \<open>handleMissingValuesAction\<close> awaits the handle-missing request and, on success, the
  re-fetch: \<open>out\<close> answers the first and \<open>out2\<close> the second. \<open>fetchMissingValuesData\<close>
  catches its own errors, so the assignment after it always runs.
\<close>

definition handleMissingValuesAction ::
  "jsval \<Rightarrow> outcome \<Rightarrow> outcome \<Rightarrow> mv_state \<Rightarrow> mv_state \<times> request list" where
  "handleMissingValuesAction sid out out2 st =
     (if \<not> truthy (handlingMethod st) then (st, [])
      else
        let st1 = st\<lparr>processing := True\<rparr>;
            req = handleMissingValues sid (handlingMethod st);
            failed = (\<lambda>err. (st1\<lparr>error := caught ''Error handling missing values: '' err\<rparr>, [req]));
            (st2, reqs) =
              (case out of
                 Rejected err \<Rightarrow> failed err
               | Resolved result \<Rightarrow>
                   (case js_get result ''error'' of
                      Inl err \<Rightarrow> failed err
                    | Inr e \<Rightarrow>
                        if truthy e then (st1\<lparr>error := e\<rparr>, [req])
                        else
                          (let (st3, reqs3) = fetchMissingValuesData sid out2 st1
                           in (st3\<lparr>handlingMethod := JStr []\<rparr>, req # reqs3))))
        in (st2\<lparr>processing := False\<rparr>, reqs))"

text \<open>
  The spinner while loading; otherwise the page with the alert block and, under
  \<open>{data && ...}\<close>, the results block (table, chart and the apply form).
\<close>

definition MissingValuesAnalysis_render :: "mv_state \<Rightarrow> view modelled" where
  "MissingValuesAnalysis_render st =
     (if loading st then Some (Inr Spinner)
      else if truthy (data st) then None
      else (case alert_block (error st) of
              Inl c \<Rightarrow> Some (Inl c)
            | Inr b \<Rightarrow> Some (Inr (Page False b (falsy_texts (data st))))))"

definition MissingValuesAnalysis_mount ::
  "jsval \<Rightarrow> outcome \<Rightarrow> (mv_state \<times> request list) modelled" where
  "MissingValuesAnalysis_mount sid out =
     after_render (MissingValuesAnalysis_render MissingValuesAnalysis_init)
       (fetchMissingValuesData sid out MissingValuesAnalysis_init)"

subsection \<open>FullReport\<close>

record report_state = ui_status +
  reportData :: jsval

definition FullReport_init :: report_state where
  "FullReport_init = \<lparr>loading = True, error = JNull, reportData = JNull\<rparr>"

text \<open>Reading several properties of one value in order, as an object literal does.\<close>

fun read_fields :: "jsval \<Rightarrow> (string \<times> string) list \<Rightarrow> exn + (string \<times> jsval) list" where
  "read_fields v [] = Inr []"
| "read_fields v ((k, p) # rest) =
     (case js_get v p of
        Inl e \<Rightarrow> Inl e
      | Inr x \<Rightarrow> (case read_fields v rest of Inl e \<Rightarrow> Inl e | Inr kvs \<Rightarrow> Inr ((k, x) # kvs)))"

definition generateReport ::
  "jsval \<Rightarrow> outcome \<Rightarrow> report_state \<Rightarrow> report_state \<times> request list" where
  "generateReport sid out st =
     (let st1 = st\<lparr>loading := True, error := JNull\<rparr>;
          failed = (\<lambda>err. st1\<lparr>error := caught ''Error generating report: '' err\<rparr>);
          st2 =
            (case out of
               Rejected err \<Rightarrow> failed err
             | Resolved result \<Rightarrow>
                 (case js_get result ''error'' of
                    Inl err \<Rightarrow> failed err
                  | Inr e \<Rightarrow>
                      if truthy e then st1\<lparr>error := e\<rparr>
                      else
                        (case read_fields result
                                [(''basicStats'', ''basic_statistics''),
                                 (''missingValues'', ''missing_values''),
                                 (''correlationData'', ''correlations''),
                                 (''datasetInfo'', ''dataset_info''),
                                 (''timeSeriesInfo'', ''time_series_info''),
                                 (''generatedAt'', ''generated_at'')] of
                           Inl err \<Rightarrow> failed err
                         | Inr kvs \<Rightarrow> st1\<lparr>reportData := JObj kvs\<rparr>)))
      in (st2\<lparr>loading := False\<rparr>, [getComprehensiveReport sid]))"

text \<open>
  The spinner while loading; otherwise the page with the alert block and, under
  \<open>{reportData && ...}\<close>, the report.
\<close>

definition FullReport_render :: "report_state \<Rightarrow> view modelled" where
  "FullReport_render st =
     (if loading st then Some (Inr Spinner)
      else if truthy (reportData st) then None
      else (case alert_block (error st) of
              Inl c \<Rightarrow> Some (Inl c)
            | Inr b \<Rightarrow> Some (Inr (Page False b (falsy_texts (reportData st))))))"

definition FullReport_mount ::
  "jsval \<Rightarrow> outcome \<Rightarrow> (report_state \<times> request list) modelled" where
  "FullReport_mount sid out =
     after_render (FullReport_render FullReport_init) (generateReport sid out FullReport_init)"

subsection \<open>DistributionAnalysis\<close>

record dist_state = view_state +
  selectedColumn :: jsval

text \<open>
  The initial state reads \<open>numericColumns[0]\<close>, which throws when the prop is
  \<open>null\<close> or \<open>undefined\<close>.
\<close>

definition DistributionAnalysis_init :: "jsval \<Rightarrow> exn + dist_state" where
  "DistributionAnalysis_init numericColumns =
     (case js_index0 numericColumns of
        Inl e \<Rightarrow> Inl e
      | Inr c \<Rightarrow>
          Inr \<lparr>loading = False, error = JNull, data = JNull,
               selectedColumn = js_or c (JStr [])\<rparr>)"

definition fetchDistributionData ::
  "jsval \<Rightarrow> jsval \<Rightarrow> outcome \<Rightarrow> dist_state \<Rightarrow> dist_state \<times> request list" where
  "fetchDistributionData sid column out st =
     (let st1 = st\<lparr>loading := True, error := JNull\<rparr>;
          failed = (\<lambda>err. st1\<lparr>error := caught ''Error fetching distribution data: '' err\<rparr>);
          st2 =
            (case out of
               Rejected err \<Rightarrow> failed err
             | Resolved result \<Rightarrow>
                 (case js_get result ''error'' of
                    Inl err \<Rightarrow> failed err
                  | Inr e \<Rightarrow> if truthy e then st1\<lparr>error := e\<rparr> else st1\<lparr>data := result\<rparr>))
      in (st2\<lparr>loading := False\<rparr>, [getDistributionAnalysis sid column]))"

text \<open>The effect: \<open>if (selectedColumn) fetchDistributionData(selectedColumn)\<close>.\<close>

definition DistributionAnalysis_effect ::
  "jsval \<Rightarrow> outcome \<Rightarrow> dist_state \<Rightarrow> dist_state \<times> request list" where
  "DistributionAnalysis_effect sid out st =
     (if truthy (selectedColumn st) then fetchDistributionData sid (selectedColumn st) out st
      else (st, []))"

text \<open>
  The page: the column selector, which calls \<open>numericColumns.map\<close> for its options and
  shows \<open>selectedColumn\<close>, the in-page spinner, the alert block, and the results block
  \<open>{data && !loading && (...)}\<close>.
\<close>

definition DistributionAnalysis_render :: "jsval \<Rightarrow> dist_state \<Rightarrow> view modelled" where
  "DistributionAnalysis_render numericColumns st =
     (case js_map ''numericColumns'' numericColumns of
        Inl e \<Rightarrow> Some (Inl (Thrown e))
      | Inr cols \<Rightarrow>
          if truthy (data st) \<and> \<not> loading st then None
          else if \<not> (list_all is_string cols \<and> is_string (selectedColumn st)) then None
          else (case alert_block (error st) of
                  Inl c \<Rightarrow> Some (Inl c)
                | Inr b \<Rightarrow> Some (Inr (Page (loading st) b (falsy_texts (data st))))))"

definition DistributionAnalysis_mount ::
  "jsval \<Rightarrow> jsval \<Rightarrow> outcome \<Rightarrow> (dist_state \<times> request list) modelled" where
  "DistributionAnalysis_mount sid numericColumns out =
     (case DistributionAnalysis_init numericColumns of
        Inl e \<Rightarrow> Some (Inl (Thrown e))
      | Inr st \<Rightarrow>
          after_render (DistributionAnalysis_render numericColumns st)
            (DistributionAnalysis_effect sid out st))"

subsection \<open>TimeSeriesAnalysis\<close>

text \<open>
  \<open>selectedColumns\<close> is always an array: it starts as \<open>[numericColumns[0]] || []\<close>,
  which is the one-element array (an array is truthy, whatever it holds), and the
  selector assigns arrays. It is kept as the list of its elements.
\<close>

record ts_state = view_state +
  timeColumn :: jsval
  selectedColumns :: "jsval list"

definition TimeSeriesAnalysis_init :: "jsval \<Rightarrow> jsval \<Rightarrow> exn + ts_state" where
  "TimeSeriesAnalysis_init datetimeColumns numericColumns =
     (case js_index0 datetimeColumns of
        Inl e \<Rightarrow> Inl e
      | Inr t \<Rightarrow>
          (case js_index0 numericColumns of
             Inl e \<Rightarrow> Inl e
           | Inr c \<Rightarrow>
               Inr \<lparr>loading = False, error = JNull, data = JNull,
                    timeColumn = js_or t (JStr []), selectedColumns = [c]\<rparr>))"

definition fetchTimeSeriesData ::
  "jsval \<Rightarrow> outcome \<Rightarrow> ts_state \<Rightarrow> ts_state \<times> request list" where
  "fetchTimeSeriesData sid out st =
     (let st1 = st\<lparr>loading := True, error := JNull\<rparr>;
          failed = (\<lambda>err. st1\<lparr>error := caught ''Error fetching time series data: '' err\<rparr>);
          st2 =
            (case out of
               Rejected err \<Rightarrow> failed err
             | Resolved result \<Rightarrow>
                 (case js_get result ''error'' of
                    Inl err \<Rightarrow> failed err
                  | Inr e \<Rightarrow> if truthy e then st1\<lparr>error := e\<rparr> else st1\<lparr>data := result\<rparr>))
      in (st2\<lparr>loading := False\<rparr>,
          [getTimeSeriesData sid (timeColumn st) (JArr (selectedColumns st))]))"

text \<open>
  The effect: \<open>if (timeColumn && selectedColumns.length > 0) fetchTimeSeriesData()\<close>.
\<close>

definition TimeSeriesAnalysis_effect ::
  "jsval \<Rightarrow> outcome \<Rightarrow> ts_state \<Rightarrow> ts_state \<times> request list" where
  "TimeSeriesAnalysis_effect sid out st =
     (if truthy (timeColumn st) \<and> length (selectedColumns st) > 0
      then fetchTimeSeriesData sid out st
      else (st, []))"

text \<open>
  The render function returns the warning when \<open>datetimeColumns.length === 0\<close>; the
  warning holds the back button and a fixed text, no selector. Otherwise the page: the
  two selectors, which call \<open>datetimeColumns.map\<close> and \<open>numericColumns.map\<close> in this
  order for their options and show \<open>timeColumn\<close> and \<open>selectedColumns\<close>, the in-page
  spinner, the alert block, and the results block \<open>{data && !loading && (...)}\<close>.
\<close>

definition TimeSeriesAnalysis_render :: "jsval \<Rightarrow> jsval \<Rightarrow> ts_state \<Rightarrow> view modelled" where
  "TimeSeriesAnalysis_render datetimeColumns numericColumns st =
     (case js_length datetimeColumns of
        Inl e \<Rightarrow> Some (Inl (Thrown e))
      | Inr n \<Rightarrow>
          if n = JNum 0 then Some (Inr Warning)
          else
            (case js_map ''datetimeColumns'' datetimeColumns of
               Inl e \<Rightarrow> Some (Inl (Thrown e))
             | Inr dcols \<Rightarrow>
                 (case js_map ''numericColumns'' numericColumns of
                    Inl e \<Rightarrow> Some (Inl (Thrown e))
                  | Inr ncols \<Rightarrow>
                      if truthy (data st) \<and> \<not> loading st then None
                      else if \<not> (list_all is_string dcols \<and> list_all is_string ncols
                                 \<and> is_string (timeColumn st)
                                 \<and> list_all (\<lambda>c. is_string c \<or> c = JUndefined)
                                       (selectedColumns st))
                      then None
                      else (case alert_block (error st) of
                              Inl c \<Rightarrow> Some (Inl c)
                            | Inr b \<Rightarrow>
                                Some (Inr (Page (loading st) b (falsy_texts (data st))))))))"

definition TimeSeriesAnalysis_mount ::
  "jsval \<Rightarrow> jsval \<Rightarrow> jsval \<Rightarrow> outcome \<Rightarrow> (ts_state \<times> request list) modelled" where
  "TimeSeriesAnalysis_mount sid datetimeColumns numericColumns out =
     (case TimeSeriesAnalysis_init datetimeColumns numericColumns of
        Inl e \<Rightarrow> Some (Inl (Thrown e))
      | Inr st \<Rightarrow>
          after_render (TimeSeriesAnalysis_render datetimeColumns numericColumns st)
            (TimeSeriesAnalysis_effect sid out st))"

subsection \<open>ChatBot\<close>



record chat_message =
  role :: string
  content :: jsval

record chat_state = ui_status +
  messages :: "chat_message list"
  input :: string

definition ChatBot_init :: chat_state where
  "ChatBot_init = \<lparr>loading = False, error = JNull, messages = [], input = []\<rparr>"


text \<open>
  The chat page: the conversation (a placeholder while it is empty), each message with
  its \<open>content\<close> as a child, the card shown while loading, and the alert block.
  It is given by the text values of each message, the loading flag and the alert block.
\<close>

datatype chat_view = Conversation "jsval list list" bool block

fun react_each :: "jsval list \<Rightarrow> crash + jsval list list" where
  "react_each [] = Inr []"
| "react_each (x # xs) =
     (case react_child x of
        Inl c \<Rightarrow> Inl c
      | Inr ts \<Rightarrow> (case react_each xs of Inl c \<Rightarrow> Inl c | Inr tss \<Rightarrow> Inr (ts # tss)))"

definition ChatBot_render :: "chat_state \<Rightarrow> chat_view modelled" where
  "ChatBot_render st =
     (case react_each (map content (messages st)) of
        Inl c \<Rightarrow> Some (Inl c)
      | Inr tss \<Rightarrow>
          (case alert_block (error st) of
             Inl c \<Rightarrow> Some (Inl c)
           | Inr b \<Rightarrow> Some (Inr (Conversation tss (loading st) b))))"

text \<open>The only effect of the chat view scrolls to the last message: no request.\<close>

definition ChatBot_mount :: "jsval \<Rightarrow> (chat_state \<times> request list) modelled" where
  "ChatBot_mount sid = after_render (ChatBot_render ChatBot_init) (ChatBot_init, [])"

subsection \<open>Mounting what the controller renders\<close>

text \<open>
  The requests issued when the element returned by \<open>renderAnalysisComponent\<close> is
  mounted; \<open>out\<close> answers the request, if there is one. Nothing is mounted for
  \<open>null\<close>.
\<close>

definition requests_of :: "('s \<times> request list) modelled \<Rightarrow> request list modelled" where
  "requests_of m =
     (case m of
        None \<Rightarrow> None
      | Some (Inl c) \<Rightarrow> Some (Inl c)
      | Some (Inr r) \<Rightarrow> Some (Inr (snd r)))"

fun mount_requests :: "component option \<Rightarrow> outcome \<Rightarrow> request list modelled" where
  "mount_requests None out = Some (Inr [])"
| "mount_requests (Some (BasicStats sid)) out = requests_of (BasicStats_mount sid out)"
| "mount_requests (Some (DistributionAnalysis sid nc)) out =
     requests_of (DistributionAnalysis_mount sid nc out)"
| "mount_requests (Some (MissingValuesAnalysis sid)) out =
     requests_of (MissingValuesAnalysis_mount sid out)"
| "mount_requests (Some (TimeSeriesAnalysis sid dc nc)) out =
     requests_of (TimeSeriesAnalysis_mount sid dc nc out)"
| "mount_requests (Some (CorrelationAnalysis sid)) out =
     requests_of (CorrelationAnalysis_mount sid out)"
| "mount_requests (Some (FullReport sid)) out = requests_of (FullReport_mount sid out)"
| "mount_requests (Some (ChatBot sid)) out = requests_of (ChatBot_mount sid)"

section \<open>The menu and the reachable controller states\<close>

text \<open>
  The dataset panel of \<open>AnalysisMenu\<close> shows \<open>dataInfo.numeric_columns.length\<close> and
  \<open>dataInfo.datetime_columns.length\<close> (next to the shape, the column chips and the
  preview rows, which are not modelled). The menu, and with it the buttons that select
  an analysis, is on screen only if these reads do not throw.
\<close>

definition AnalysisMenu_counts :: "jsval \<Rightarrow> exn + jsval \<times> jsval" where
  "AnalysisMenu_counts di =
     (case js_get di ''numeric_columns'' of
        Inl e \<Rightarrow> Inl e
      | Inr nc \<Rightarrow>
          (case js_length nc of
             Inl e \<Rightarrow> Inl e
           | Inr n \<Rightarrow>
               (case js_get di ''datetime_columns'' of
                  Inl e \<Rightarrow> Inl e
                | Inr dc \<Rightarrow>
                    (case js_length dc of
                       Inl e \<Rightarrow> Inl e
                     | Inr m \<Rightarrow> Inr (n, m)))))"

text \<open>
  The states the controller can be in. The handlers are wired to the screen that is
  rendered: the menu calls \<open>onAnalysisSelect(option.id)\<close> and \<open>onDataReload\<close>, a
  mounted analysis view calls \<open>onBack\<close>, and the upload view calls \<open>onDataLoaded\<close>
  from its two handlers. A response may arrive whatever the controller state has become,
  so the two upload handlers are not tied to a screen.
\<close>

inductive reachable :: "app_state \<Rightarrow> bool" where
  r_init: "reachable App_init"
| r_sample: "reachable s \<Longrightarrow> handleSampleData out d s = (d', s', reqs) \<Longrightarrow> reachable s'"
| r_upload: "reachable s \<Longrightarrow> handleFileUpload out d s = (d', s', reqs) \<Longrightarrow> reachable s'"
| r_select: "reachable s \<Longrightarrow> App_render s = Inr (AnalysisMenuScreen di)
             \<Longrightarrow> t \<in> set analysisOptions \<Longrightarrow> reachable (handleAnalysisSelect (JStr t) s)"
| r_reload: "reachable s \<Longrightarrow> App_render s = Inr (AnalysisMenuScreen di)
             \<Longrightarrow> reachable (onDataReload s)"
| r_back: "reachable s \<Longrightarrow> App_render s = Inr (AnalysisScreen (Some c))
           \<Longrightarrow> reachable (handleBackToMenu s)"

text \<open>The invariant of the data model: an analysis is selected only while a session exists.\<close>

definition session_invariant :: "app_state \<Rightarrow> bool" where
  "session_invariant s = (currentAnalysis s \<noteq> JNull \<longrightarrow> sessionId s \<noteq> JNull)"


section \<open>Properties of the controller\<close>

lemmas app_defs =
  handleDataLoaded_def handleAnalysisSelect_def handleBackToMenu_def onDataReload_def

lemma loaded_state:
  assumes "handleDataLoaded r s = Inr s'"
  shows "currentAnalysis s' = JNull"
    and "truthy (sessionId s') \<longrightarrow> (\<exists>kvs. dataInfo s' = JObj kvs)"
  using assms by (cases r; auto simp: handleDataLoaded_def)+

lemma handleSampleData_controller:
  assumes "handleSampleData out d s = (d', s', reqs)"
  shows "s' = s \<or> (\<exists>r. handleDataLoaded r s = Inr s')"
  using assms
  by (auto simp: handleSampleData_def Let_def split: outcome.splits sum.splits if_splits)

lemma handleFileUpload_controller:
  assumes "handleFileUpload out d s = (d', s', reqs)"
  shows "s' = s \<or> (\<exists>r. handleDataLoaded r s = Inr s')"
  using assms
  by (auto simp: handleFileUpload_def Let_def
      split: option.splits outcome.splits sum.splits if_splits)

text \<open>
  In every reachable state a selected analysis is one of the seven tags and comes with a
  truthy session id, and a truthy session id comes with an object as \<open>dataInfo\<close>.
\<close>

lemma reachable_session:
  assumes "reachable s"
  shows "(truthy (currentAnalysis s) \<longrightarrow> truthy (sessionId s))
         \<and> (truthy (sessionId s) \<longrightarrow> (\<exists>kvs. dataInfo s = JObj kvs))
         \<and> (currentAnalysis s = JNull \<or> currentAnalysis s \<in> JStr ` set analysisOptions)"
  using assms
proof (induction rule: reachable.induct)
  case r_init
  then show ?case by (simp add: App_init_def)
next
  case (r_sample s out d d' s' reqs)
  then show ?case
    using handleSampleData_controller[OF r_sample.hyps(2)] loaded_state by auto
next
  case (r_upload s out d d' s' reqs)
  then show ?case
    using handleFileUpload_controller[OF r_upload.hyps(2)] loaded_state by auto
next
  case (r_select s di t)
  then show ?case
    by (auto simp: App_render_def handleAnalysisSelect_def analysisOptions_def
        split: if_splits sum.splits)
next
  case (r_reload s di)
  then show ?case by (simp add: onDataReload_def)
next
  case (r_back s c)
  then show ?case
    by (auto simp: App_render_def handleBackToMenu_def split: if_splits sum.splits)
qed

lemma reachable_session_invariant:
  assumes "reachable s"
  shows "session_invariant s"
proof (cases "currentAnalysis s = JNull")
  case True
  then show ?thesis by (simp add: session_invariant_def)
next
  case False
  with reachable_session[OF assms] have "truthy (currentAnalysis s)"
    by (auto simp: analysisOptions_def)
  with reachable_session[OF assms] have "truthy (sessionId s)" by simp
  then show ?thesis by (auto simp: session_invariant_def)
qed

text \<open>Where the menu is on screen, both the session id and \<open>dataInfo\<close> are truthy.\<close>

lemma reachable_menu_has_session:
  assumes "reachable s" and "App_render s = Inr (AnalysisMenuScreen di)"
  shows "truthy (sessionId s) \<and> truthy (dataInfo s)"
proof -
  from assms(2) have "truthy (sessionId s)"
    by (auto simp: App_render_def split: if_splits sum.splits)
  moreover from this reachable_session[OF assms(1)] have "truthy (dataInfo s)" by auto
  ultimately show ?thesis by simp
qed



section \<open>The claims about the controller\<close>

text \<open>
  C1. The workflow state keeps the invariant that \<open>currentAnalysis\<close> is non-null only
  while a session exists. It holds in every reachable state, and every transition
  establishes it in its post-state, from any pre-state: \<open>loadData\<close> (any response on
  which \<open>handleDataLoaded\<close> does not throw) and \<open>reload\<close>, the two transitions that
  assign \<open>sessionId\<close>, also set \<open>currentAnalysis\<close> to \<open>null\<close>; \<open>backToMenu\<close> sets
  it to \<open>null\<close> and keeps the session; \<open>selectAnalysis\<close> keeps \<open>sessionId\<close>, so a
  non-null session stays non-null.
\<close>

theorem session_invariant_kept:
  "(reachable u \<longrightarrow> session_invariant u)
   \<and> (handleDataLoaded r s = Inr s' \<longrightarrow> currentAnalysis s' = JNull \<and> session_invariant s')
   \<and> (sessionId s \<noteq> JNull \<longrightarrow>
        sessionId (handleAnalysisSelect t s) = sessionId s
        \<and> session_invariant (handleAnalysisSelect t s))
   \<and> (currentAnalysis (handleBackToMenu s) = JNull
        \<and> sessionId (handleBackToMenu s) = sessionId s
        \<and> session_invariant (handleBackToMenu s))
   \<and> (currentAnalysis (onDataReload s) = JNull \<and> session_invariant (onDataReload s))"
proof (intro conjI impI)
  assume "reachable u"
  then show "session_invariant u" by (rule reachable_session_invariant)
next
  assume "handleDataLoaded r s = Inr s'"
  then show "currentAnalysis s' = JNull" by (rule loaded_state(1))
  then show "session_invariant s'" by (simp add: session_invariant_def)
next
  assume "sessionId s \<noteq> JNull"
  then show "session_invariant (handleAnalysisSelect t s)"
    by (simp add: session_invariant_def handleAnalysisSelect_def)
qed (simp_all add: app_defs session_invariant_def)

text \<open>
  The invariant at work: the sample data is loaded into the initial state and the
  correlation analysis is selected from the menu. The state reached has a selected
  analysis and a session.
\<close>

theorem session_invariant_kept_witness:
  "reachable \<lparr>sessionId = JStr ''s1'', dataInfo = JObj [(''session_id'', JStr ''s1'')],
              currentAnalysis = JStr ''correlation''\<rparr>
   \<and> session_invariant \<lparr>sessionId = JStr ''s1'', dataInfo = JObj [(''session_id'', JStr ''s1'')],
              currentAnalysis = JStr ''correlation''\<rparr>
   \<and> handleDataLoaded (JObj [(''session_id'', JStr ''s1'')]) App_init
       = Inr \<lparr>sessionId = JStr ''s1'', dataInfo = JObj [(''session_id'', JStr ''s1'')],
              currentAnalysis = JNull\<rparr>
   \<and> session_invariant \<lparr>sessionId = JStr ''s1'', dataInfo = JObj [(''session_id'', JStr ''s1'')],
              currentAnalysis = JNull\<rparr>
   \<and> sessionId \<lparr>sessionId = JStr ''s1'', dataInfo = JObj [(''session_id'', JStr ''s1'')],
              currentAnalysis = JNull\<rparr> \<noteq> JNull
   \<and> handleAnalysisSelect (JStr ''correlation'')
         \<lparr>sessionId = JStr ''s1'', dataInfo = JObj [(''session_id'', JStr ''s1'')],
          currentAnalysis = JNull\<rparr>
       = \<lparr>sessionId = JStr ''s1'', dataInfo = JObj [(''session_id'', JStr ''s1'')],
              currentAnalysis = JStr ''correlation''\<rparr>"
proof -
  let ?r = "JObj [(''session_id'', JStr ''s1'')]"
  let ?m = "\<lparr>sessionId = JStr ''s1'', dataInfo = ?r, currentAnalysis = JNull\<rparr>"
  let ?u = "\<lparr>sessionId = JStr ''s1'', dataInfo = ?r, currentAnalysis = JStr ''correlation''\<rparr>"
  have load: "handleDataLoaded ?r App_init = Inr ?m"
    by (simp add: handleDataLoaded_def App_init_def)
  have "handleSampleData (Resolved ?r) DataUpload_init App_init
          = (DataUpload_init, ?m, [loadSampleData])"
    by (simp add: handleSampleData_def load DataUpload_init_def)
  from r_sample[OF r_init this] have m: "reachable ?m" .
  have "App_render ?m = Inr (AnalysisMenuScreen ?r)"
    by (simp add: App_render_def)
  from r_select[OF m this, of "''correlation''"] have u: "reachable ?u"
    by (simp add: analysisOptions_def handleAnalysisSelect_def)
  have sel: "handleAnalysisSelect (JStr ''correlation'') ?m = ?u"
    by (simp add: handleAnalysisSelect_def)
  have nn: "sessionId ?m \<noteq> JNull" by simp
  from session_invariant_kept[of ?u ?r App_init ?m "JStr ''correlation''"] u load nn sel
  show ?thesis by simp
qed

text \<open>
  C2. For every response whose \<open>session_id\<close> can be read and is non-null, in particular
  every response object with a non-null \<open>session_id\<close> field, \<open>loadData\<close> applied to any
  prior controller state yields a state whose \<open>sessionId\<close> is the response's
  \<open>session_id\<close> and non-null, whose \<open>dataInfo\<close> is the response, and whose
  \<open>currentAnalysis\<close> is \<open>null\<close>.
\<close>

theorem loadData_sets_session:
  assumes "js_get r ''session_id'' = Inr sid" and "sid \<noteq> JNull"
  shows "\<exists>s'. handleDataLoaded r s = Inr s' \<and> sessionId s' = sid \<and> sessionId s' \<noteq> JNull
           \<and> dataInfo s' = r \<and> currentAnalysis s' = JNull"
  using assms by (simp add: handleDataLoaded_def)

theorem loadData_sets_session_witness:
  "js_get (JObj [(''session_id'', JStr ''s1''), (''datetime_columns'', JArr [])]) ''session_id''
     = Inr (JStr ''s1'')
   \<and> JStr ''s1'' \<noteq> JNull
   \<and> (\<exists>s'. handleDataLoaded (JObj [(''session_id'', JStr ''s1''), (''datetime_columns'', JArr [])])
               \<lparr>sessionId = JStr ''s0'', dataInfo = JObj [], currentAnalysis = JStr ''chatbot''\<rparr>
             = Inr s'
           \<and> sessionId s' = JStr ''s1'' \<and> sessionId s' \<noteq> JNull
           \<and> dataInfo s' = JObj [(''session_id'', JStr ''s1''), (''datetime_columns'', JArr [])]
           \<and> currentAnalysis s' = JNull)"
proof -
  have h: "js_get (JObj [(''session_id'', JStr ''s1''), (''datetime_columns'', JArr [])])
             ''session_id'' = Inr (JStr ''s1'')"
    by simp
  have n: "JStr ''s1'' \<noteq> JNull" by simp
  from loadData_sets_session[OF h n] h n show ?thesis by blast
qed

text \<open>
  C3. For every prior controller state, without precondition, \<open>reload\<close> yields a state
  where \<open>sessionId\<close>, \<open>dataInfo\<close> and \<open>currentAnalysis\<close> are all \<open>null\<close>.
\<close>

theorem reload_clears_all:
  "sessionId (onDataReload s) = JNull \<and> dataInfo (onDataReload s) = JNull
   \<and> currentAnalysis (onDataReload s) = JNull"
  by (simp add: onDataReload_def)

text \<open>
  The two steps of C4 from any state in which \<open>App\<close> shows a session: with a truthy
  \<open>sessionId\<close> and a truthy \<open>dataInfo\<close>, selecting the correlation analysis puts the
  correlation view on screen, and going back puts the menu on screen.
\<close>

lemma select_correlation_view:
  assumes "truthy (sessionId s)" and "truthy (dataInfo s)"
  shows "App_render (handleAnalysisSelect (JStr ''correlation'') s)
           = Inr (AnalysisScreen (Some (CorrelationAnalysis (sessionId s))))"
    and "App_render (handleBackToMenu (handleAnalysisSelect (JStr ''correlation'') s))
           = Inr (AnalysisMenuScreen (dataInfo s))"
  using assms by (simp_all add: app_defs App_render_def renderAnalysisComponent_def)

text \<open>
  C4. \<open>selectAnalysis\<close> is the menu's \<open>onAnalysisSelect\<close>, so it is applied in the
  states where the menu is on screen, and there the session is non-null. For every such
  state of the controller, applying \<open>selectAnalysis('correlation')\<close> makes the rendered
  view the correlation view of that session, and applying \<open>backToMenu\<close> after it yields
  the menu view with \<open>sessionId\<close> and \<open>dataInfo\<close> exactly as they were. In any state
  whatsoever, \<open>backToMenu\<close> sets \<open>currentAnalysis\<close> to \<open>null\<close> and changes no other
  field.
\<close>

theorem select_correlation_then_back:
  assumes "reachable s" and "App_render s = Inr (AnalysisMenuScreen di)"
  shows "sessionId s \<noteq> JNull
         \<and> App_render (handleAnalysisSelect (JStr ''correlation'') s)
           = Inr (AnalysisScreen (Some (CorrelationAnalysis (sessionId s))))
         \<and> App_render (handleBackToMenu (handleAnalysisSelect (JStr ''correlation'') s))
           = Inr (AnalysisMenuScreen (dataInfo s))
         \<and> sessionId (handleBackToMenu (handleAnalysisSelect (JStr ''correlation'') s))
           = sessionId s
         \<and> dataInfo (handleBackToMenu (handleAnalysisSelect (JStr ''correlation'') s))
           = dataInfo s
         \<and> sessionId (handleBackToMenu v) = sessionId v
         \<and> dataInfo (handleBackToMenu v) = dataInfo v
         \<and> currentAnalysis (handleBackToMenu v) = JNull"
proof -
  from reachable_menu_has_session[OF assms]
  have t: "truthy (sessionId s)" "truthy (dataInfo s)" by simp_all
  from t(1) have "sessionId s \<noteq> JNull" by auto
  with select_correlation_view[OF t] show ?thesis
    by (simp add: app_defs)
qed

text \<open>
  An instance: the sample data, answered with a full session descriptor, is loaded into
  the initial state; the menu is then on screen.
\<close>

theorem select_correlation_then_back_witness:
  "reachable
     \<lparr>sessionId = JStr ''s1'',
      dataInfo = JObj [(''session_id'', JStr ''s1''), (''shape'', JArr [JNum 3, JNum 2]),
                       (''columns'', JArr [JStr ''date'', JStr ''price'']),
                       (''numeric_columns'', JArr [JStr ''price'']),
                       (''datetime_columns'', JArr [JStr ''date'']),
                       (''preview'', JArr [])],
      currentAnalysis = JNull\<rparr>
   \<and> App_render
        \<lparr>sessionId = JStr ''s1'',
         dataInfo = JObj [(''session_id'', JStr ''s1''), (''shape'', JArr [JNum 3, JNum 2]),
                          (''columns'', JArr [JStr ''date'', JStr ''price'']),
                          (''numeric_columns'', JArr [JStr ''price'']),
                          (''datetime_columns'', JArr [JStr ''date'']),
                          (''preview'', JArr [])],
         currentAnalysis = JNull\<rparr>
     = Inr (AnalysisMenuScreen
              (JObj [(''session_id'', JStr ''s1''), (''shape'', JArr [JNum 3, JNum 2]),
                     (''columns'', JArr [JStr ''date'', JStr ''price'']),
                     (''numeric_columns'', JArr [JStr ''price'']),
                     (''datetime_columns'', JArr [JStr ''date'']),
                     (''preview'', JArr [])]))
   \<and> App_render (handleAnalysisSelect (JStr ''correlation'')
        \<lparr>sessionId = JStr ''s1'',
         dataInfo = JObj [(''session_id'', JStr ''s1''), (''shape'', JArr [JNum 3, JNum 2]),
                          (''columns'', JArr [JStr ''date'', JStr ''price'']),
                          (''numeric_columns'', JArr [JStr ''price'']),
                          (''datetime_columns'', JArr [JStr ''date'']),
                          (''preview'', JArr [])],
         currentAnalysis = JNull\<rparr>)
     = Inr (AnalysisScreen (Some (CorrelationAnalysis (JStr ''s1''))))
   \<and> handleBackToMenu (handleAnalysisSelect (JStr ''correlation'')
        \<lparr>sessionId = JStr ''s1'',
         dataInfo = JObj [(''session_id'', JStr ''s1''), (''shape'', JArr [JNum 3, JNum 2]),
                          (''columns'', JArr [JStr ''date'', JStr ''price'']),
                          (''numeric_columns'', JArr [JStr ''price'']),
                          (''datetime_columns'', JArr [JStr ''date'']),
                          (''preview'', JArr [])],
         currentAnalysis = JNull\<rparr>)
     = \<lparr>sessionId = JStr ''s1'',
        dataInfo = JObj [(''session_id'', JStr ''s1''), (''shape'', JArr [JNum 3, JNum 2]),
                         (''columns'', JArr [JStr ''date'', JStr ''price'']),
                         (''numeric_columns'', JArr [JStr ''price'']),
                         (''datetime_columns'', JArr [JStr ''date'']),
                         (''preview'', JArr [])],
        currentAnalysis = JNull\<rparr>"
proof -
  let ?r = "JObj [(''session_id'', JStr ''s1''), (''shape'', JArr [JNum 3, JNum 2]),
                  (''columns'', JArr [JStr ''date'', JStr ''price'']),
                  (''numeric_columns'', JArr [JStr ''price'']),
                  (''datetime_columns'', JArr [JStr ''date'']),
                  (''preview'', JArr [])]"
  let ?m = "\<lparr>sessionId = JStr ''s1'', dataInfo = ?r, currentAnalysis = JNull\<rparr>"
  have "handleSampleData (Resolved ?r) DataUpload_init App_init
          = (DataUpload_init, ?m, [loadSampleData])"
    by (simp add: handleSampleData_def handleDataLoaded_def App_init_def DataUpload_init_def)
  from r_sample[OF r_init this] have m: "reachable ?m" .
  have menu: "App_render ?m = Inr (AnalysisMenuScreen ?r)"
    by (simp add: App_render_def)
  from select_correlation_then_back[OF m menu, of ?m] m menu
  show ?thesis by (simp add: app_defs)
qed

text \<open>
  C7. \<open>backToMenu\<close> is idempotent: applied twice in a row it yields exactly the state it
  yields applied once.
\<close>

theorem backToMenu_idempotent:
  "handleBackToMenu (handleBackToMenu s) = handleBackToMenu s"
  by (simp add: handleBackToMenu_def)

text \<open>
  C10. \<open>renderAnalysisComponent\<close> is total: whenever \<open>sessionId\<close> or \<open>dataInfo\<close> is
  \<open>null\<close> (or falsy in any other way), and for every \<open>currentAnalysis\<close> that is not
  one of the seven tags, it returns \<open>null\<close> without throwing; nothing is mounted then,
  so no request is issued.
\<close>

theorem render_null_without_session_or_tag:
  assumes "sessionId s = JNull \<or> dataInfo s = JNull
           \<or> \<not> truthy (sessionId s) \<or> \<not> truthy (dataInfo s)
           \<or> currentAnalysis s \<notin> JStr ` set analysisOptions"
  shows "renderAnalysisComponent s = Inr None
         \<and> (\<forall>c. renderAnalysisComponent s = Inr c \<longrightarrow> mount_requests c out = Some (Inr []))"
proof -
  from assms have "renderAnalysisComponent s = Inr None"
    by (auto simp: renderAnalysisComponent_def analysisOptions_def)
  then show ?thesis by simp
qed

theorem render_null_without_session_or_tag_witness:
  "JStr ''pie_chart'' \<notin> JStr ` set analysisOptions
   \<and> renderAnalysisComponent
        \<lparr>sessionId = JStr ''s1'', dataInfo = JObj [(''session_id'', JStr ''s1'')],
         currentAnalysis = JStr ''pie_chart''\<rparr> = Inr None
   \<and> renderAnalysisComponent
        \<lparr>sessionId = JNull, dataInfo = JNull, currentAnalysis = JStr ''correlation''\<rparr>
      = Inr None
   \<and> renderAnalysisComponent
        \<lparr>sessionId = JStr ''s1'', dataInfo = JNull, currentAnalysis = JStr ''correlation''\<rparr>
      = Inr None"
proof -
  have t: "JStr ''pie_chart'' \<notin> JStr ` set analysisOptions"
    by (simp add: analysisOptions_def)
  from render_null_without_session_or_tag
         [of "\<lparr>sessionId = JStr ''s1'', dataInfo = JObj [(''session_id'', JStr ''s1'')],
               currentAnalysis = JStr ''pie_chart''\<rparr>"]
       render_null_without_session_or_tag
         [of "\<lparr>sessionId = JNull, dataInfo = JNull, currentAnalysis = JStr ''correlation''\<rparr>"]
       render_null_without_session_or_tag
         [of "\<lparr>sessionId = JStr ''s1'', dataInfo = JNull,
               currentAnalysis = JStr ''correlation''\<rparr>"]
       t
  show ?thesis by simp
qed




section \<open>The claims about the upload view and the analysis views\<close>

lemma all_strings: "list_all is_string (map JStr cols)"
  by (induction cols) simp_all


text \<open>
  C5, as stated, for every response that carries an error field: it fails when the
  field is falsy. The handlers test \<open>if (result.error)\<close>, so a response whose error
  field is the empty string takes the success branch: \<open>onDataLoaded\<close> assigns the
  response to \<open>dataInfo\<close> and \<open>undefined\<close> to \<open>sessionId\<close>, and no error is stored.
\<close>

theorem upload_empty_error_loads_data:
  "js_get (JObj [(''error'', JStr [])]) ''error'' = Inr (JStr [])
   \<and> handleFileUpload (Resolved (JObj [(''error'', JStr [])]))
        (DataUpload_init\<lparr>selectedFile := Some (File ''data.csv'')\<rparr>) App_init
     = (DataUpload_init\<lparr>selectedFile := Some (File ''data.csv'')\<rparr>,
        \<lparr>sessionId = JUndefined, dataInfo = JObj [(''error'', JStr [])],
         currentAnalysis = JNull\<rparr>,
        [uploadFile (File ''data.csv'')
           \<lparr>has_header = Some True, skip_rows = Some 0, header_row = Some 0\<rparr>])
   \<and> \<lparr>sessionId = JUndefined, dataInfo = JObj [(''error'', JStr [])], currentAnalysis = JNull\<rparr>
     \<noteq> App_init"
  by (simp add: handleFileUpload_def DataUpload_init_def App_init_def handleDataLoaded_def)

text \<open>
  C5, amended. If the response to the upload/file request (a file being selected) or to
  the upload/sample request carries an error field that is a non-empty string, the
  controller state is unchanged, whatever it was: \<open>sessionId\<close>, \<open>dataInfo\<close> and
  \<open>currentAnalysis\<close> keep their values. The upload view stores the error string,
  \<open>loading\<close> is false again, the alert block of the page is an alert that holds the
  string as it is, and the one request of the handler is the only one issued: there is no
  retry.
\<close>

theorem upload_error_keeps_controller:
  assumes "js_get result ''error'' = Inr (JStr msg)" and "msg \<noteq> []"
  shows "(selectedFile d = Some f \<longrightarrow>
            handleFileUpload (Resolved result) d s =
              (d\<lparr>loading := False, error := JStr msg\<rparr>, s,
               [uploadFile f
                  \<lparr>has_header = Some (hasHeader d), skip_rows = Some (skipRows d),
                   header_row = Some (headerRow d)\<rparr>]))
         \<and> handleSampleData (Resolved result) d s =
              (d\<lparr>loading := False, error := JStr msg\<rparr>, s, [loadSampleData])
         \<and> DataUpload_alert (d\<lparr>loading := False, error := JStr msg\<rparr>)
            = Inr (AlertBox [JStr msg])"
  using assms
  by (simp add: handleFileUpload_def handleSampleData_def DataUpload_alert_def
      alert_block_def)

theorem upload_error_keeps_controller_witness:
  "js_get (JObj [(''error'', JStr ''bad file'')]) ''error'' = Inr (JStr ''bad file'')
   \<and> ''bad file'' \<noteq> []
   \<and> selectedFile (DataUpload_init\<lparr>selectedFile := Some (File ''data.csv'')\<rparr>)
     = Some (File ''data.csv'')
   \<and> handleFileUpload (Resolved (JObj [(''error'', JStr ''bad file'')]))
        (DataUpload_init\<lparr>selectedFile := Some (File ''data.csv'')\<rparr>) App_init
     = (DataUpload_init\<lparr>selectedFile := Some (File ''data.csv''),
                         error := JStr ''bad file''\<rparr>,
        App_init,
        [uploadFile (File ''data.csv'')
           \<lparr>has_header = Some True, skip_rows = Some 0, header_row = Some 0\<rparr>])
   \<and> DataUpload_alert
        (DataUpload_init\<lparr>selectedFile := Some (File ''data.csv''),
                         error := JStr ''bad file''\<rparr>)
     = Inr (AlertBox [JStr ''bad file''])
   \<and> App_render App_init = Inr DataUploadScreen"
proof -
  have h: "js_get (JObj [(''error'', JStr ''bad file'')]) ''error'' = Inr (JStr ''bad file'')"
    by simp
  have t: "''bad file'' \<noteq> []" by simp
  from upload_error_keeps_controller
         [OF h t, of "DataUpload_init\<lparr>selectedFile := Some (File ''data.csv'')\<rparr>"
            "File ''data.csv''" App_init]
       h t
  show ?thesis by (simp add: DataUpload_init_def App_init_def App_render_def)
qed

text \<open>
  C6. For every session (a truthy session id whose menu could show the column counts of
  its \<open>dataInfo\<close>, so that \<open>numeric_columns\<close> is neither \<open>null\<close> nor \<open>undefined\<close>)
  whose \<open>dataInfo\<close> has \<open>datetime_columns\<close> equal to the empty list, selecting
  \<open>time_series\<close> puts the time-series view on screen, the view renders the warning, and
  mounting it issues no request: the state it starts in has no time column, so the fetch
  effect does nothing, and the warning offers no selector that could change it.
\<close>

theorem time_series_without_datetime_columns:
  assumes "truthy (sessionId s)"
    and "AnalysisMenu_counts (dataInfo s) = Inr (n, m)"
    and "js_get (dataInfo s) ''datetime_columns'' = Inr (JArr [])"
    and "js_get (dataInfo s) ''numeric_columns'' = Inr nc"
  shows "App_render (handleAnalysisSelect (JStr ''time_series'') s)
           = Inr (AnalysisScreen (Some (TimeSeriesAnalysis (sessionId s) (JArr []) nc)))
         \<and> mount_requests (Some (TimeSeriesAnalysis (sessionId s) (JArr []) nc)) out
           = Some (Inr [])
         \<and> (\<exists>st. TimeSeriesAnalysis_mount (sessionId s) (JArr []) nc out = Some (Inr (st, []))
                \<and> TimeSeriesAnalysis_render (JArr []) nc st = Some (Inr Warning)
                \<and> TimeSeriesAnalysis_effect (sessionId s) out st = (st, []))"
proof -
  from assms(3) have di: "truthy (dataInfo s)"
    by (cases "dataInfo s") simp_all
  from assms(2,4) obtain k where "js_length nc = Inr k"
    by (auto simp: AnalysisMenu_counts_def split: sum.splits)
  then obtain c where c: "js_index0 nc = Inr c"
    by (cases nc rule: js_index0.cases) simp_all
  have r: "App_render (handleAnalysisSelect (JStr ''time_series'') s)
           = Inr (AnalysisScreen (Some (TimeSeriesAnalysis (sessionId s) (JArr []) nc)))"
    using assms(1,3,4) di
    by (simp add: App_render_def renderAnalysisComponent_def handleAnalysisSelect_def)
  have i: "TimeSeriesAnalysis_mount (sessionId s) (JArr []) nc out
           = Some (Inr (\<lparr>loading = False, error = JNull, data = JNull, timeColumn = JStr [],
                         selectedColumns = [c]\<rparr>, []))"
    using c
    by (simp add: TimeSeriesAnalysis_mount_def TimeSeriesAnalysis_init_def
        TimeSeriesAnalysis_render_def after_render_def TimeSeriesAnalysis_effect_def js_or_def)
  show ?thesis
    using r i
    by (simp add: TimeSeriesAnalysis_render_def TimeSeriesAnalysis_effect_def requests_of_def)
qed

theorem time_series_without_datetime_columns_witness:
  "truthy (JStr ''s1'')
   \<and> AnalysisMenu_counts
        (JObj [(''session_id'', JStr ''s1''), (''numeric_columns'', JArr [JStr ''price'']),
               (''datetime_columns'', JArr [])]) = Inr (JNum 1, JNum 0)
   \<and> App_render (handleAnalysisSelect (JStr ''time_series'')
        \<lparr>sessionId = JStr ''s1'',
         dataInfo = JObj [(''session_id'', JStr ''s1''),
                          (''numeric_columns'', JArr [JStr ''price'']),
                          (''datetime_columns'', JArr [])],
         currentAnalysis = JNull\<rparr>)
     = Inr (AnalysisScreen
              (Some (TimeSeriesAnalysis (JStr ''s1'') (JArr []) (JArr [JStr ''price'']))))
   \<and> mount_requests
        (Some (TimeSeriesAnalysis (JStr ''s1'') (JArr []) (JArr [JStr ''price''])))
        (Resolved JNull) = Some (Inr [])"
proof -
  let ?di = "JObj [(''session_id'', JStr ''s1''), (''numeric_columns'', JArr [JStr ''price'']),
                   (''datetime_columns'', JArr [])]"
  let ?s = "\<lparr>sessionId = JStr ''s1'', dataInfo = ?di, currentAnalysis = JNull\<rparr>"
  have a1: "truthy (sessionId ?s)" by simp
  have a2: "AnalysisMenu_counts (dataInfo ?s) = Inr (JNum 1, JNum 0)"
    by (simp add: AnalysisMenu_counts_def)
  have a3: "js_get (dataInfo ?s) ''datetime_columns'' = Inr (JArr [])" by simp
  have a4: "js_get (dataInfo ?s) ''numeric_columns'' = Inr (JArr [JStr ''price''])" by simp
  from time_series_without_datetime_columns[OF a1 a2 a3 a4, of "Resolved JNull"] a1 a2
  show ?thesis by simp
qed





text \<open>
  C9, as stated: it fails in both of its parts. The chat view issues no request when it
  is mounted (its only effect scrolls the conversation), and neither does the
  time-series or the distribution view when no column is preselected. In the
  missing-values view, a handle-missing response whose error field is the empty string
  counts as a success: the analysis is fetched again.
\<close>

theorem chatbot_mount_no_request:
  "mount_requests (Some (ChatBot (JStr ''s1''))) (Resolved JNull) = Some (Inr [])
   \<and> js_get (JObj [(''error'', JStr [])]) ''error'' = Inr (JStr [])
   \<and> snd (handleMissingValuesAction (JStr ''s1'') (Resolved (JObj [(''error'', JStr [])]))
            (Resolved (JObj [])) (MissingValuesAnalysis_init\<lparr>handlingMethod := JStr ''drop''\<rparr>))
     = [handleMissingValues (JStr ''s1'') (JStr ''drop''),
        getMissingValuesAnalysis (JStr ''s1'')]"
  by (simp add: ChatBot_mount_def ChatBot_render_def ChatBot_init_def alert_block_def
      after_render_def requests_of_def handleMissingValuesAction_def
      fetchMissingValuesData_def MissingValuesAnalysis_init_def Let_def)

text \<open>
  C9, amended. When mounted, the basic-statistics, missing-values, correlation and
  full-report views each issue exactly one request, the fetch of their data. The
  distribution view and the time-series view, given lists of column names as props,
  issue theirs only if there is a first numeric, respectively datetime, column to
  preselect and its name is not empty, and none otherwise; the chat view issues none.
  In the missing-values view, with a handling method selected, a handle-missing response
  whose error field is falsy or absent is followed by exactly one re-fetch of the
  missing-values analysis and the selected method is reset to the empty string; when
  the error field is truthy no re-fetch is issued and the method stays selected.
\<close>

theorem mount_fetches_and_apply_refetches:
  "mount_requests (Some (BasicStats sid)) out = Some (Inr [getBasicStats sid])
   \<and> mount_requests (Some (MissingValuesAnalysis sid)) out
     = Some (Inr [getMissingValuesAnalysis sid])
   \<and> mount_requests (Some (CorrelationAnalysis sid)) out
     = Some (Inr [getCorrelationAnalysis sid])
   \<and> mount_requests (Some (FullReport sid)) out = Some (Inr [getComprehensiveReport sid])
   \<and> mount_requests (Some (DistributionAnalysis sid (JArr (map JStr ncols)))) out
     = Some (Inr (case ncols of
                    [] \<Rightarrow> []
                  | c # cs \<Rightarrow> if c = [] then [] else [getDistributionAnalysis sid (JStr c)]))
   \<and> mount_requests
        (Some (TimeSeriesAnalysis sid (JArr (map JStr dcols)) (JArr (map JStr ncols)))) out
     = Some (Inr (case dcols of
                    [] \<Rightarrow> []
                  | t # ts \<Rightarrow>
                      if t = [] then []
                      else [getTimeSeriesData sid (JStr t)
                              (JArr [case ncols of [] \<Rightarrow> JUndefined | c # cs \<Rightarrow> JStr c])]))
   \<and> mount_requests (Some (ChatBot sid)) out = Some (Inr [])
   \<and> (truthy (handlingMethod mv) \<and> js_get result ''error'' = Inr e \<longrightarrow>
        snd (handleMissingValuesAction sid (Resolved result) out2 mv)
        = (if truthy e then [handleMissingValues sid (handlingMethod mv)]
           else [handleMissingValues sid (handlingMethod mv), getMissingValuesAnalysis sid])
        \<and> handlingMethod (fst (handleMissingValuesAction sid (Resolved result) out2 mv))
        = (if truthy e then handlingMethod mv else JStr []))"
proof (intro conjI impI)
  show "mount_requests (Some (BasicStats sid)) out = Some (Inr [getBasicStats sid])"
    by (simp add: BasicStats_mount_def BasicStats_render_def BasicStats_init_def
        after_render_def requests_of_def fetchStats_def Let_def)
  show "mount_requests (Some (MissingValuesAnalysis sid)) out
          = Some (Inr [getMissingValuesAnalysis sid])"
    by (simp add: MissingValuesAnalysis_mount_def MissingValuesAnalysis_render_def
        MissingValuesAnalysis_init_def after_render_def requests_of_def
        fetchMissingValuesData_def Let_def)
  show "mount_requests (Some (CorrelationAnalysis sid)) out
          = Some (Inr [getCorrelationAnalysis sid])"
    by (simp add: CorrelationAnalysis_mount_def CorrelationAnalysis_render_def
        CorrelationAnalysis_init_def after_render_def requests_of_def
        fetchCorrelationData_def Let_def)
  show "mount_requests (Some (FullReport sid)) out = Some (Inr [getComprehensiveReport sid])"
    by (simp add: FullReport_mount_def FullReport_render_def FullReport_init_def
        after_render_def requests_of_def generateReport_def Let_def)
  show "mount_requests (Some (ChatBot sid)) out = Some (Inr [])"
    by (simp add: ChatBot_mount_def ChatBot_render_def ChatBot_init_def alert_block_def
        after_render_def requests_of_def)
  show "mount_requests (Some (DistributionAnalysis sid (JArr (map JStr ncols)))) out
          = Some (Inr (case ncols of
                         [] \<Rightarrow> []
                       | c # cs \<Rightarrow>
                           if c = [] then [] else [getDistributionAnalysis sid (JStr c)]))"
    using all_strings[of ncols]
    by (cases ncols)
       (simp_all add: DistributionAnalysis_mount_def DistributionAnalysis_init_def
          DistributionAnalysis_render_def DistributionAnalysis_effect_def
          fetchDistributionData_def alert_block_def after_render_def requests_of_def
          js_or_def Let_def)
  show "mount_requests
          (Some (TimeSeriesAnalysis sid (JArr (map JStr dcols)) (JArr (map JStr ncols)))) out
          = Some (Inr (case dcols of
                         [] \<Rightarrow> []
                       | t # ts \<Rightarrow>
                           if t = [] then []
                           else [getTimeSeriesData sid (JStr t)
                                   (JArr [case ncols of
                                            [] \<Rightarrow> JUndefined | c # cs \<Rightarrow> JStr c])]))"
    using all_strings[of dcols] all_strings[of ncols]
    by (cases dcols; cases ncols)
       (simp_all add: TimeSeriesAnalysis_mount_def TimeSeriesAnalysis_init_def
          TimeSeriesAnalysis_render_def TimeSeriesAnalysis_effect_def
          fetchTimeSeriesData_def alert_block_def after_render_def requests_of_def
          js_or_def Let_def)
next
  assume a: "truthy (handlingMethod mv) \<and> js_get result ''error'' = Inr e"
  then show "snd (handleMissingValuesAction sid (Resolved result) out2 mv)
        = (if truthy e then [handleMissingValues sid (handlingMethod mv)]
           else [handleMissingValues sid (handlingMethod mv), getMissingValuesAnalysis sid])"
    by (simp add: handleMissingValuesAction_def fetchMissingValuesData_def Let_def)
  from a show "handlingMethod (fst (handleMissingValuesAction sid (Resolved result) out2 mv))
        = (if truthy e then handlingMethod mv else JStr [])"
    by (simp add: handleMissingValuesAction_def fetchMissingValuesData_def Let_def)
qed

theorem mount_fetches_and_apply_refetches_witness:
  "mount_requests (Some (DistributionAnalysis (JStr ''s1'') (JArr [JStr ''price''])))
        (Resolved JNull)
     = Some (Inr [getDistributionAnalysis (JStr ''s1'') (JStr ''price'')])
   \<and> mount_requests
        (Some (TimeSeriesAnalysis (JStr ''s1'') (JArr [JStr ''date'']) (JArr [JStr ''price''])))
        (Resolved JNull)
     = Some (Inr [getTimeSeriesData (JStr ''s1'') (JStr ''date'') (JArr [JStr ''price''])])
   \<and> truthy (handlingMethod (MissingValuesAnalysis_init\<lparr>handlingMethod := JStr ''drop''\<rparr>))
   \<and> js_get (JObj [(''message'', JStr ''ok'')]) ''error'' = Inr JUndefined
   \<and> snd (handleMissingValuesAction (JStr ''s1'') (Resolved (JObj [(''message'', JStr ''ok'')]))
            (Resolved (JObj [])) (MissingValuesAnalysis_init\<lparr>handlingMethod := JStr ''drop''\<rparr>))
     = [handleMissingValues (JStr ''s1'') (JStr ''drop''),
        getMissingValuesAnalysis (JStr ''s1'')]
   \<and> handlingMethod
        (fst (handleMissingValuesAction (JStr ''s1'')
                (Resolved (JObj [(''message'', JStr ''ok'')])) (Resolved (JObj []))
                (MissingValuesAnalysis_init\<lparr>handlingMethod := JStr ''drop''\<rparr>)))
     = JStr []"
proof -
  have m: "truthy (handlingMethod (MissingValuesAnalysis_init\<lparr>handlingMethod := JStr ''drop''\<rparr>))"
    by simp
  have g: "js_get (JObj [(''message'', JStr ''ok'')]) ''error'' = Inr JUndefined" by simp
  from mount_fetches_and_apply_refetches
         [of "JStr ''s1''" "Resolved JNull" "[''price'']" "[''date'']"
             "MissingValuesAnalysis_init\<lparr>handlingMethod := JStr ''drop''\<rparr>"
             "JObj [(''message'', JStr ''ok'')]" JUndefined "Resolved (JObj [])"]
       m g
  show ?thesis by simp
qed

end
